theory Spec2Isabelle
  imports Complex_Main "HOL-Library.Word"
begin

unbundle bit_operations_syntax

section \<open>JavaScript strings\<close>

text \<open>
  A JavaScript string is a sequence of UTF-16 code units; \<open>length\<close>, \<open>slice\<close>,
  \<open>charCodeAt\<close> and \<open>trimEnd\<close> all count code units. \<open>str\<close> embeds an ASCII literal.
\<close>

type_synonym jschar = "16 word"
type_synonym jsstring = "jschar list"

definition str :: "string \<Rightarrow> jsstring" where
  "str s = map (\<lambda>c. word_of_nat (of_char c)) s"

text \<open>\<open>a || b\<close> on strings: the empty string is falsy.\<close>

definition or_str :: "jsstring \<Rightarrow> jsstring \<Rightarrow> jsstring" where
  "or_str a b = (if a \<noteq> [] then a else b)"

text \<open>\<open>x || d\<close> where \<open>x\<close> is a string property that may be absent (\<open>undefined\<close>).\<close>

definition opt_or :: "jsstring option \<Rightarrow> jsstring \<Rightarrow> jsstring" where
  "opt_or x d = (case x of None \<Rightarrow> d | Some s \<Rightarrow> or_str s d)"

definition num_or :: "nat option \<Rightarrow> nat \<Rightarrow> nat" where
  "num_or x d = (case x of None \<Rightarrow> d | Some n \<Rightarrow> if n \<noteq> 0 then n else d)"

text \<open>\<open>s.startsWith(p)\<close>.\<close>

definition startsWith :: "jsstring \<Rightarrow> jsstring \<Rightarrow> bool" where
  "startsWith s p = (take (length p) s = p)"

text \<open>
  The code units that \<open>trim\<close> and \<open>trimEnd\<close> remove: ECMAScript WhiteSpace
  (TAB, VT, FF, SP, NBSP, ZWNBSP and the space separators) and LineTerminator
  (LF, CR, LS, PS).
\<close>

definition isWhiteSpace :: "jschar \<Rightarrow> bool" where
  "isWhiteSpace c \<longleftrightarrow>
     c \<in> set [0x0009, 0x000A, 0x000B, 0x000C, 0x000D, 0x0020, 0x00A0, 0x1680,
              0x2000, 0x2001, 0x2002, 0x2003, 0x2004, 0x2005, 0x2006, 0x2007,
              0x2008, 0x2009, 0x200A, 0x2028, 0x2029, 0x202F, 0x205F, 0x3000, 0xFEFF]"

definition trimStart :: "jsstring \<Rightarrow> jsstring" where
  "trimStart s = dropWhile isWhiteSpace s"

definition trimEnd :: "jsstring \<Rightarrow> jsstring" where
  "trimEnd s = rev (dropWhile isWhiteSpace (rev s))"

definition trim :: "jsstring \<Rightarrow> jsstring" where
  "trim s = trimStart (trimEnd s)"

text \<open>Decimal rendering of a non-negative integer, as a template literal prints it.\<close>

definition digit :: "nat \<Rightarrow> jschar" where
  "digit d = word_of_nat (if d < 10 then 48 + d else 87 + d)"

fun decimal :: "nat \<Rightarrow> jsstring" where
  "decimal n = (if n < 10 then [digit n] else decimal (n div 10) @ [digit (n mod 10)])"

declare decimal.simps [simp del]

section \<open>Small utilities\<close>

text \<open>
  \<open>hash32\<close>: FNV-1a over the code units. The accumulator is kept as an unsigned
  32-bit value by \<open>>>> 0\<close>; the shifts and the sum wrap modulo \<open>2^32\<close>.
\<close>

definition hash_step :: "32 word \<Rightarrow> jschar \<Rightarrow> 32 word" where
  "hash_step h c =
     (let h1 = h XOR ucast c
      in h1 + push_bit 1 h1 + push_bit 4 h1 + push_bit 7 h1 + push_bit 8 h1 + push_bit 24 h1)"

text \<open>\<open>('0000000' + h.toString(16)).slice(-8)\<close>: eight lower-case hex digits.\<close>

definition hex8 :: "32 word \<Rightarrow> jsstring" where
  "hex8 h = map (\<lambda>i. digit (unat (drop_bit (4 * i) h AND 0xF))) [7, 6, 5, 4, 3, 2, 1, 0]"

definition hash32 :: "jsstring \<Rightarrow> jsstring" where
  "hash32 s = hex8 (foldl hash_step 0x811c9dc5 s)"


text \<open>\<open>s.split(c)\<close>: the pieces of \<open>s\<close> between occurrences of \<open>c\<close>.\<close>

fun split_on :: "jschar \<Rightarrow> jsstring \<Rightarrow> jsstring list" where
  "split_on c [] = [[]]"
| "split_on c (x # xs) =
     (if x = c then [] # split_on c xs
      else (case split_on c xs of [] \<Rightarrow> [[x]] | piece # rest \<Rightarrow> (x # piece) # rest))"

text \<open>\<open>clamp(n, a, b) = Math.min(b, Math.max(a, n))\<close>.\<close>

definition clamp :: "rat \<Rightarrow> rat \<Rightarrow> rat \<Rightarrow> rat" where
  "clamp n a b = min b (max a n)"

text \<open>\<open>Math.round\<close> on a non-negative number: the nearest integer, halves up.\<close>

definition js_round :: "rat \<Rightarrow> nat" where
  "js_round x = nat \<lfloor>x + 1 / 2\<rfloor>"

section \<open>Constants\<close>

definition INGEST_DEDUP_WINDOW_MS :: int where
  "INGEST_DEDUP_WINDOW_MS = 900"

definition IMAGE_SOFT_LIMIT :: nat where
  "IMAGE_SOFT_LIMIT = 2 * 1024 * 1024"

definition IMAGE_MAX_DIM :: nat where
  "IMAGE_MAX_DIM = 2048"

section \<open>Data model\<close>

type_synonym bytes = "8 word list"

text \<open>
  A \<open>Blob\<close> or \<open>File\<close>: its MIME type, its bytes, and for a \<open>File\<close> its name
  (\<open>None\<close> for a plain \<open>Blob\<close>) and modification time. \<open>blob.size\<close> is the number of bytes.
\<close>

record blob =
  b_type :: jsstring
  b_bytes :: bytes
  b_name :: "jsstring option"
  b_lastModified :: nat

definition b_size :: "blob \<Rightarrow> nat" where
  "b_size b = length (b_bytes b)"

definition isFile :: "blob \<Rightarrow> bool" where
  "isFile b = (b_name b \<noteq> None)"

datatype kind = KText | KImage | KFile

text \<open>
  A history item. Every property other than \<open>id\<close>, \<open>kind\<close> and \<open>createdAt\<close> is present
  on some items only; \<open>pending\<close>, \<open>error\<close> and \<open>expanded\<close> are the transient ones.
\<close>

record item =
  i_id :: jsstring
  i_kind :: kind
  i_createdAt :: nat
  i_text :: "jsstring option"
  i_html :: "jsstring option"
  i_blobId :: "jsstring option"
  i_name :: "jsstring option"
  i_mime :: "jsstring option"
  i_size :: "nat option"
  i_dataUrl :: "jsstring option"
  i_pending :: "bool option"
  i_error :: "jsstring option"
  i_expanded :: "bool option"

text \<open>An entry of the version 5 record: not an object at all, or an object with these properties.\<close>

record legacy_fields =
  l_kind :: jsstring
  l_createdAt :: "nat option"
  l_text :: "jsstring option"
  l_html :: "jsstring option"
  l_dataUrlPersisted :: "jsstring option"
  l_dataUrl :: "jsstring option"
  l_name :: "jsstring option"
  l_mime :: "jsstring option"
  l_size :: "nat option"

datatype legacy = LegacyJunk | LegacyItem legacy_fields

section \<open>Messages between the content script and the service worker\<close>

text \<open>
  The payload of a request. \<open>p_id\<close> is \<open>None\<close> when the \<open>id\<close> property is absent or
  is no valid IndexedDB key; string keys are the ones the content script sends.
\<close>

record payload =
  p_id :: "jsstring option"
  p_buffer :: "bytes option"
  p_mime :: "jsstring option"
  p_name :: "jsstring option"
  p_size :: "nat option"
  p_lastModified :: "nat option"

text \<open>
  A delivered message: a value that is falsy or not an object, or an object whose
  \<open>type\<close> property is a string (\<open>Some\<close>) or anything else (\<open>None\<close>) and whose
  \<open>payload\<close> property is an object (\<open>Some\<close>) or \<open>undefined\<close>/\<open>null\<close> (\<open>None\<close>).
\<close>

datatype request = NonObject | Message "jsstring option" "payload option"

text \<open>A value that was thrown or that a promise was rejected with.\<close>

datatype thrown = Exception jsstring jsstring | RejectedNull

text \<open>\<open>String(e?.message || e)\<close>; an error with an empty message prints as its name.\<close>

definition error_text :: "thrown \<Rightarrow> jsstring" where
  "error_text e = (case e of Exception nm msg \<Rightarrow> or_str msg nm | RejectedNull \<Rightarrow> str ''null'')"

record reply =
  g_id :: jsstring
  g_buffer :: bytes
  g_mime :: jsstring
  g_name :: jsstring
  g_size :: nat
  g_lastModified :: nat

text \<open>
  The responses: \<open>{ok: true}\<close>, \<open>{ok: true, ts}\<close>, the answer to a successful
  \<open>blob.get\<close>, and \<open>{ok: false, error}\<close>.
\<close>

datatype response = ROk | RPong nat | RBlob reply | RFail jsstring

text \<open>A record of the object store \<open>blobs\<close>, keyed by \<open>id\<close>.\<close>

record blob_record =
  r_id :: jsstring
  r_blob_type :: jsstring
  r_blob_bytes :: bytes
  r_mime :: "jsstring option"
  r_name :: "jsstring option"
  r_size :: "nat option"
  r_lastModified :: "nat option"
  r_savedAt :: nat

type_synonym idb_store = "jsstring \<rightharpoonup> blob_record"

section \<open>The platform\<close>

text \<open>What \<open>FileReader.readAsDataURL\<close> does: it fires \<open>load\<close> with a \<open>data:\<close> URL (the
  argument is what follows the scheme), it throws, or it fires \<open>error\<close>, for which
  \<open>blobToDataUrl\<close> installs no handler.\<close>

datatype reader_outcome = Loaded jsstring | ReaderThrows | ReaderErrorEvent

text \<open>
  Everything the code obtains from outside itself during one operation: the
  identifiers and clock readings (by the number of readings made so far), image
  decoding and canvas encoding, and the failures of files, of the message channel,
  of IndexedDB and of \<open>storage.local\<close>.
\<close>

record platform =
  uid_of :: "nat \<Rightarrow> jsstring"
  time_of :: "nat \<Rightarrow> nat"
  decode :: "blob \<Rightarrow> (nat \<times> nat) option"
  context2d :: bool
  toBlob :: "nat \<Rightarrow> nat \<Rightarrow> blob \<Rightarrow> blob option"
  arrayBuffer_rejects :: "blob \<Rightarrow> bool"
  reader :: "blob \<Rightarrow> reader_outcome"
  send_rejects :: "request \<Rightarrow> bool"
  idb_fault :: "request \<Rightarrow> thrown option"
  type_error :: thrown
  data_error :: thrown
  worker_now :: nat
  storageSet_rejects :: bool


section \<open>The service worker: the blob store\<close>

text \<open>
  Each operation opens the database and runs one transaction; \<open>idb_fault\<close> is the
  error that makes the promise of \<open>withStore\<close> reject, if any. The result is what the
  operation returns (\<open>Inr\<close>) or throws (\<open>Inl\<close>), and the store afterwards.
\<close>

definition putBlob :: "platform \<Rightarrow> request \<Rightarrow> payload option \<Rightarrow> idb_store \<Rightarrow> (thrown + response) \<times> idb_store" where
  "putBlob p msg pl store =
     (case pl of
        None \<Rightarrow> (Inl (type_error p), store)
      | Some f \<Rightarrow>
          (case idb_fault p msg of
             Some e \<Rightarrow> (Inl e, store)
           | None \<Rightarrow>
               (case p_id f of
                  None \<Rightarrow> (Inl (data_error p), store)
                | Some k \<Rightarrow>
                    (Inr ROk,
                     store(k \<mapsto>
                       \<lparr> r_id = k,
                         r_blob_type = opt_or (p_mime f) (str ''application/octet-stream''),
                         r_blob_bytes = (case p_buffer f of Some b \<Rightarrow> b
                                         | None \<Rightarrow> map (\<lambda>c. word_of_nat (of_char c)) ''undefined''),
                         r_mime = p_mime f, r_name = p_name f, r_size = p_size f,
                         r_lastModified = p_lastModified f, r_savedAt = worker_now p \<rparr>)))))"

definition getBlob :: "platform \<Rightarrow> request \<Rightarrow> payload option \<Rightarrow> idb_store \<Rightarrow> (thrown + response) \<times> idb_store" where
  "getBlob p msg pl store =
     (case pl of
        None \<Rightarrow> (Inl (type_error p), store)
      | Some f \<Rightarrow>
          (case idb_fault p msg of
             Some e \<Rightarrow> (Inl e, store)
           | None \<Rightarrow>
               (case p_id f of
                  None \<Rightarrow> (Inl (data_error p), store)
                | Some k \<Rightarrow>
                    (case store k of
                       None \<Rightarrow> (Inr (RFail (str ''not_found'')), store)
                     | Some r \<Rightarrow>
                         (Inr (RBlob
                            \<lparr> g_id = r_id r,
                              g_buffer = r_blob_bytes r,
                              g_mime = opt_or (r_mime r)
                                         (or_str (r_blob_type r) (str ''application/octet-stream'')),
                              g_name = opt_or (r_name r) [],
                              g_size = (case r_size r of Some n \<Rightarrow> n | None \<Rightarrow> length (r_blob_bytes r)),
                              g_lastModified = (case r_lastModified r of Some n \<Rightarrow> n | None \<Rightarrow> 0) \<rparr>),
                          store)))))"

definition deleteBlob :: "platform \<Rightarrow> request \<Rightarrow> payload option \<Rightarrow> idb_store \<Rightarrow> (thrown + response) \<times> idb_store" where
  "deleteBlob p msg pl store =
     (case pl of
        None \<Rightarrow> (Inl (type_error p), store)
      | Some f \<Rightarrow>
          (case idb_fault p msg of
             Some e \<Rightarrow> (Inl e, store)
           | None \<Rightarrow>
               (case p_id f of
                  None \<Rightarrow> (Inl (data_error p), store)
                | Some k \<Rightarrow> (Inr ROk, store(k := None)))))"

definition worker_clearAll :: "platform \<Rightarrow> request \<Rightarrow> idb_store \<Rightarrow> (thrown + response) \<times> idb_store" where
  "worker_clearAll p msg store =
     (case idb_fault p msg of
        Some e \<Rightarrow> (Inl e, store)
      | None \<Rightarrow> (Inr ROk, Map.empty))"

text \<open>The body of the \<open>try\<close> block of the \<open>onMessage\<close> listener.\<close>

definition dispatch :: "platform \<Rightarrow> request \<Rightarrow> idb_store \<Rightarrow> (thrown + response) \<times> idb_store" where
  "dispatch p msg store =
     (case msg of
        NonObject \<Rightarrow> (Inr (RFail (str ''bad_request'')), store)
      | Message tag pl \<Rightarrow>
          (if tag = Some (str ''blob.put'') then putBlob p msg pl store
           else if tag = Some (str ''blob.get'') then getBlob p msg pl store
           else if tag = Some (str ''blob.delete'') then deleteBlob p msg pl store
           else if tag = Some (str ''blob.clear'') then worker_clearAll p msg store
           else if tag = Some (str ''ping'') then (Inr (RPong (worker_now p)), store)
           else (Inr (RFail (str ''unknown_type'')), store)))"

text \<open>The listener: the response passed to \<open>sendResponse\<close>, and the store afterwards.\<close>

definition onMessage :: "platform \<Rightarrow> request \<Rightarrow> idb_store \<Rightarrow> response \<times> idb_store" where
  "onMessage p msg store =
     (case dispatch p msg store of
        (Inr resp, store') \<Rightarrow> (resp, store')
      | (Inl e, store') \<Rightarrow> (RFail (error_text e), store'))"

section \<open>The image transcoder\<close>

text \<open>
  The size of the canvas for an image of the given natural size, or \<open>None\<close> when
  \<open>scale >= 0.999\<close>. Numbers are exact rationals. With both sides 0 the quotient
  \<open>IMAGE_MAX_DIM / maxDim\<close> is \<open>Infinity\<close>, which \<open>clamp\<close> takes to 1.
\<close>

definition canvasSize :: "nat \<times> nat \<Rightarrow> (nat \<times> nat) option" where
  "canvasSize d =
     (let width = fst d; height = snd d;
          maxDim = max width height;
          scale = (if maxDim = 0 then 1
                   else clamp (of_nat IMAGE_MAX_DIM / of_nat maxDim) (15 / 100) 1)
      in if scale \<ge> 999 / 1000 then None
         else Some (max 1 (js_round (of_nat width * scale)),
                    max 1 (js_round (of_nat height * scale))))"

definition maybeCompressImage :: "platform \<Rightarrow> blob \<Rightarrow> blob" where
  "maybeCompressImage p b =
     (if \<not> startsWith (b_type b) (str ''image/'') then b
      else if b_size b \<le> IMAGE_SOFT_LIMIT then b
      else (case decode p b of
              None \<Rightarrow> b
            | Some d \<Rightarrow>
                (case canvasSize d of
                   None \<Rightarrow> b
                 | Some (w, h) \<Rightarrow>
                     if \<not> context2d p then b
                     else (case toBlob p w h b of
                             None \<Rightarrow> b
                           | Some out \<Rightarrow>
                               if b_size out \<noteq> 0 \<and> b_size out < b_size b then out else b))))"


section \<open>The content script: state\<close>

text \<open>
  \<open>state.items\<close>, \<open>blobCache\<close> and \<open>lastIngest\<close> of the page, the number of
  identifiers and clock readings drawn so far, the two keys of \<open>storage.local\<close>
  (\<open>None\<close> when the key is absent), and the object store of the service worker.
\<close>

record world =
  items :: "item list"
  blobCache :: "jsstring \<rightharpoonup> blob"
  lastIngest :: "jsstring \<times> nat"
  tick :: nat
  stored_v6 :: "item list option"
  stored_v5 :: "legacy list option"
  idb :: idb_store

text \<open>A page that has just been opened: the variables as they are initialised.\<close>

definition new_page :: "world \<Rightarrow> world" where
  "new_page w = w\<lparr> items := [], blobCache := Map.empty, lastIngest := ([], 0) \<rparr>"

text \<open>\<open>runtimeSend\<close>: the response, or \<open>None\<close> when the promise rejects.\<close>

definition runtimeSend :: "platform \<Rightarrow> request \<Rightarrow> world \<Rightarrow> response option \<times> world" where
  "runtimeSend p msg w =
     (if send_rejects p msg then (None, w)
      else (case onMessage p msg (idb w) of
              (resp, store') \<Rightarrow> (Some resp, w\<lparr> idb := store' \<rparr>)))"

definition empty_payload :: payload where
  "empty_payload = \<lparr> p_id = None, p_buffer = None, p_mime = None, p_name = None,
                     p_size = None, p_lastModified = None \<rparr>"

definition id_payload :: "jsstring \<Rightarrow> payload" where
  "id_payload k = empty_payload\<lparr> p_id := Some k \<rparr>"

section \<open>Persistence\<close>

definition strip :: "item \<Rightarrow> item" where
  "strip it = it\<lparr> i_expanded := None, i_pending := None, i_error := None \<rparr>"

definition persistMetadata :: "platform \<Rightarrow> world \<Rightarrow> world" where
  "persistMetadata p w =
     (if storageSet_rejects p then w
      else w\<lparr> stored_v6 := Some (map strip (items w)) \<rparr>)"

text \<open>One round of the loop of \<open>restoreBlobs\<close>: the item as the round leaves it.\<close>

definition restoreBlob :: "platform \<Rightarrow> item \<Rightarrow> world \<Rightarrow> item \<times> world" where
  "restoreBlob p it w =
     (case i_blobId it of
        None \<Rightarrow> (it, w)
      | Some bid \<Rightarrow>
          if bid = [] then (it, w)
          else if blobCache w bid \<noteq> None then (it, w)
          else (case runtimeSend p (Message (Some (str ''blob.get'')) (Some (id_payload bid))) w of
                  (Some (RBlob r), w') \<Rightarrow>
                    (it\<lparr> i_mime := Some (opt_or (i_mime it) (g_mime r)),
                         i_size := Some (num_or (i_size it) (g_size r)) \<rparr>,
                     w'\<lparr> blobCache := (blobCache w')(bid \<mapsto>
                           \<lparr> b_type = or_str (g_mime r)
                                        (opt_or (i_mime it) (str ''application/octet-stream'')),
                             b_bytes = g_buffer r, b_name = None, b_lastModified = 0 \<rparr>) \<rparr>)
                | (_, w') \<Rightarrow> (it, w')))"

fun restoreBlobs :: "platform \<Rightarrow> item list \<Rightarrow> world \<Rightarrow> item list \<times> world" where
  "restoreBlobs p [] w = ([], w)"
| "restoreBlobs p (it # its) w =
     (case restoreBlob p it w of
        (it', w') \<Rightarrow> (case restoreBlobs p its w' of (its', w'') \<Rightarrow> (it' # its', w'')))"

text \<open>\<open>x || Date.now()\<close>: the clock is read only when \<open>x\<close> is falsy.\<close>

definition now_unless :: "platform \<Rightarrow> nat option \<Rightarrow> nat \<Rightarrow> nat \<times> nat" where
  "now_unless p x t =
     (case x of
        None \<Rightarrow> (time_of p t, Suc t)
      | Some n \<Rightarrow> if n \<noteq> 0 then (n, t) else (time_of p t, Suc t))"

text \<open>
  The migration loop of \<open>load\<close> over the version 5 entries, with the number of
  readings drawn so far; \<open>Date.now()\<close> is read only where \<open>createdAt\<close> is falsy.
\<close>

fun migrate :: "platform \<Rightarrow> legacy list \<Rightarrow> nat \<Rightarrow> item list \<times> nat" where
  "migrate p [] t = ([], t)"
| "migrate p (LegacyJunk # rest) t = migrate p rest t"
| "migrate p (LegacyItem l # rest) t =
     (if l_kind l = str ''text'' \<or> l_kind l = str ''image'' then
        (let ident = uid_of p t;
             (created, t2) = now_unless p (l_createdAt l) (Suc t);
             it = (if l_kind l = str ''text''
                   then \<lparr> i_id = ident, i_kind = KText, i_createdAt = created,
                          i_text = Some (opt_or (l_text l) []), i_html = Some (opt_or (l_html l) []),
                          i_blobId = None, i_name = None, i_mime = None, i_size = None,
                          i_dataUrl = None, i_pending = None, i_error = None, i_expanded = None \<rparr>
                   else \<lparr> i_id = ident, i_kind = KImage, i_createdAt = created,
                          i_text = None, i_html = None, i_blobId = None,
                          i_name = Some (opt_or (l_name l) (str ''image'')),
                          i_mime = Some (opt_or (l_mime l) []),
                          i_size = Some (num_or (l_size l) 0),
                          i_dataUrl = Some (opt_or (l_dataUrlPersisted l) (opt_or (l_dataUrl l) [])),
                          i_pending = None, i_error = None, i_expanded = None \<rparr>)
         in (case migrate p rest t2 of (its, t3) \<Rightarrow> (it # its, t3)))
      else migrate p rest t)"

definition load :: "platform \<Rightarrow> world \<Rightarrow> world" where
  "load p w =
     (let w1 = w\<lparr> items := (case stored_v6 w of Some its \<Rightarrow> its | None \<Rightarrow> []) \<rparr>;
          w2 = (case stored_v5 w1 of
                  Some (l # ls) \<Rightarrow>
                    if items w1 = [] then
                      (case migrate p (l # ls) (tick w1) of
                         (migrated, t) \<Rightarrow> persistMetadata p (w1\<lparr> items := migrated, tick := t \<rparr>))
                    else w1
                | _ \<Rightarrow> w1)
      in (case restoreBlobs p (items w2) w2 of (its, w3) \<Rightarrow> w3\<lparr> items := its \<rparr>))"

section \<open>Item operations\<close>

definition addItemLocal :: "platform \<Rightarrow> item \<Rightarrow> world \<Rightarrow> world" where
  "addItemLocal p it w = persistMetadata p (w\<lparr> items := it # items w \<rparr>)"

text \<open>\<open>state.items.splice(idx, 1)\<close> at the first index whose item has the id.\<close>

fun splice_first :: "jsstring \<Rightarrow> item list \<Rightarrow> item list" where
  "splice_first k [] = []"
| "splice_first k (it # its) = (if i_id it = k then its else it # splice_first k its)"

definition removeItem :: "platform \<Rightarrow> jsstring \<Rightarrow> world \<Rightarrow> world" where
  "removeItem p k w =
     (case find (\<lambda>x. i_id x = k) (items w) of
        None \<Rightarrow> w
      | Some it \<Rightarrow>
          (let w1 = w\<lparr> items := splice_first k (items w) \<rparr>;
               w2 = (case i_blobId it of
                       None \<Rightarrow> w1
                     | Some bid \<Rightarrow>
                         if bid \<noteq> [] \<and> blobCache w1 bid \<noteq> None then
                           snd (runtimeSend p (Message (Some (str ''blob.delete'')) (Some (id_payload bid)))
                                  (w1\<lparr> blobCache := (blobCache w1)(bid := None) \<rparr>))
                         else w1)
           in persistMetadata p w2))"

definition clearAll :: "platform \<Rightarrow> world \<Rightarrow> world" where
  "clearAll p w =
     (let w1 = persistMetadata p (w\<lparr> blobCache := Map.empty, items := [] \<rparr>)
      in snd (runtimeSend p (Message (Some (str ''blob.clear'')) (Some empty_payload)) w1))"


text \<open>
  An assignment to a property of an item object that \<open>state.items\<close> holds. The list
  holds the object by reference, so the assignment is seen through the list; the
  object is found here by its id, which \<open>uid\<close> gives to one object only.
\<close>

definition modify_item :: "jsstring \<Rightarrow> (item \<Rightarrow> item) \<Rightarrow> world \<Rightarrow> world" where
  "modify_item k f w = w\<lparr> items := map (\<lambda>it. if i_id it = k then f it else it) (items w) \<rparr>"

text \<open>\<open>resp?.ok\<close> as a condition, for a response or a rejected send.\<close>

definition resp_ok :: "response option \<Rightarrow> bool" where
  "resp_ok r = (case r of Some ROk \<Rightarrow> True | Some (RPong ts) \<Rightarrow> True | Some (RBlob g) \<Rightarrow> True
                | Some (RFail e) \<Rightarrow> False | None \<Rightarrow> False)"

text \<open>\<open>persistBlobToBackground\<close>: \<open>True\<close> when it returns, \<open>False\<close> when it throws.\<close>

definition put_request :: "jsstring \<Rightarrow> blob \<Rightarrow> request" where
  "put_request k fileLike =
     Message (Some (str ''blob.put''))
       (Some \<lparr> p_id = Some k,
               p_buffer = Some (b_bytes fileLike),
               p_mime = Some (or_str (b_type fileLike) (str ''application/octet-stream'')),
               p_name = Some (opt_or (b_name fileLike) []),
               p_size = Some (b_size fileLike),
               p_lastModified = Some (b_lastModified fileLike) \<rparr>)"

definition persistBlobToBackground :: "platform \<Rightarrow> jsstring \<Rightarrow> blob \<Rightarrow> world \<Rightarrow> bool \<times> world" where
  "persistBlobToBackground p k fileLike w =
     (if arrayBuffer_rejects p fileLike then (False, w)
      else (case runtimeSend p (put_request k fileLike) w of
              (resp, w') \<Rightarrow> (resp_ok resp, w')))"

text \<open>
  A promise that resolves with a value, rejects, or never settles.
\<close>

datatype 'a promise = Resolves 'a | Rejects | NeverSettles

definition blobToDataUrl :: "platform \<Rightarrow> blob \<Rightarrow> jsstring promise" where
  "blobToDataUrl p b =
     (case reader p b of
        Loaded rest \<Rightarrow> Resolves (or_str (str ''data:'' @ rest) [])
      | ReaderThrows \<Rightarrow> Rejects
      | ReaderErrorEvent \<Rightarrow> NeverSettles)"

text \<open>
  \<open>addBlob\<close> up to and including \<open>addItemLocal(item)\<close>: the id, the file to persist
  and the state in which the item has been put at the head of the list.
\<close>

definition addBlob_insert :: "platform \<Rightarrow> blob \<Rightarrow> jsstring \<Rightarrow> kind \<Rightarrow> world \<Rightarrow> jsstring \<times> blob \<times> world" where
  "addBlob_insert p b nm kindHint w =
     (let ident = uid_of p (tick w);
          w1 = w\<lparr> tick := Suc (tick w) \<rparr>;
          originalName = or_str nm (opt_or (b_name b) []);
          working = (if startsWith (b_type b) (str ''image/'') then maybeCompressImage p b else b);
          mime = or_str (b_type working) (or_str (b_type b) (str ''application/octet-stream''));
          fileName = or_str originalName
                       (if startsWith mime (str ''image/'')
                        then str ''image.'' @
                             (case split_on 0x2F mime of
                                a # ext # rest \<Rightarrow> or_str ext (str ''png'')
                              | _ \<Rightarrow> str ''png'')
                        else str ''file'');
          fileToPersist = (if isFile working then working
                           else \<lparr> b_type = mime, b_bytes = b_bytes working,
                                  b_name = Some fileName, b_lastModified = time_of p (tick w1) \<rparr>);
          w2 = (if isFile working then w1 else w1\<lparr> tick := Suc (tick w1) \<rparr>);
          w3 = w2\<lparr> blobCache := (blobCache w2)(ident \<mapsto> fileToPersist) \<rparr>;
          it = \<lparr> i_id = ident, i_kind = (if startsWith mime (str ''image/'') then KImage else kindHint),
                 i_createdAt = time_of p (tick w3),
                 i_text = None, i_html = None, i_blobId = Some ident,
                 i_name = Some fileName, i_mime = Some mime, i_size = Some (b_size fileToPersist),
                 i_dataUrl = None, i_pending = Some True, i_error = None, i_expanded = None \<rparr>
      in (ident, fileToPersist, addItemLocal p it (w3\<lparr> tick := Suc (tick w3) \<rparr>)))"

text \<open>
  The rest of \<open>addBlob\<close>, from \<open>await persistBlobToBackground\<close> on. The flag says whether
  \<open>addBlob\<close> returns; it does not while \<open>await blobToDataUrl\<close> never settles.
\<close>

definition addBlob_settle :: "platform \<Rightarrow> jsstring \<Rightarrow> blob \<Rightarrow> world \<Rightarrow> world \<times> bool" where
  "addBlob_settle p ident fileToPersist w =
     (case persistBlobToBackground p ident fileToPersist w of
        (True, w1) \<Rightarrow>
          (persistMetadata p (modify_item ident (\<lambda>it. it\<lparr> i_pending := Some False \<rparr>) w1), True)
      | (False, w1) \<Rightarrow>
          (let w2 = modify_item ident
                      (\<lambda>it. it\<lparr> i_pending := Some False, i_error := Some (str ''persist_failed'') \<rparr>) w1
           in (case blobToDataUrl p fileToPersist of
                 Resolves dataUrl \<Rightarrow>
                   (persistMetadata p (modify_item ident (\<lambda>it. it\<lparr> i_dataUrl := Some dataUrl \<rparr>) w2), True)
               | Rejects \<Rightarrow> (w2, True)
               | NeverSettles \<Rightarrow> (w2, False))))"

definition addBlob :: "platform \<Rightarrow> blob \<Rightarrow> jsstring \<Rightarrow> kind \<Rightarrow> world \<Rightarrow> world \<times> bool" where
  "addBlob p b nm kindHint w =
     (case addBlob_insert p b nm kindHint w of
        (ident, fileToPersist, w') \<Rightarrow> addBlob_settle p ident fileToPersist w')"

definition addText :: "platform \<Rightarrow> jsstring \<Rightarrow> jsstring \<Rightarrow> world \<Rightarrow> world" where
  "addText p txt html w =
     (let t = trimEnd txt; h = trimEnd html
      in if t = [] \<and> h = [] then w
         else addItemLocal p
                \<lparr> i_id = uid_of p (tick w), i_kind = KText, i_createdAt = time_of p (Suc (tick w)),
                  i_text = Some t, i_html = Some h, i_blobId = None, i_name = None, i_mime = None,
                  i_size = None, i_dataUrl = None, i_pending = None, i_error = None,
                  i_expanded = None \<rparr>
                (w\<lparr> tick := Suc (Suc (tick w)) \<rparr>))"

section \<open>Ingest\<close>

text \<open>
  A candidate: \<open>{type: 'text', plain, html}\<close>, where an absent property reads as the
  empty string through \<open>|| ''\<close>, or \<open>{type: 'file', file}\<close>.
\<close>

datatype candidate = TextCand jsstring jsstring | FileCand blob

definition sigPart :: "candidate \<Rightarrow> jsstring" where
  "sigPart c =
     (case c of
        FileCand f \<Rightarrow>
          str ''F:'' @ b_type f @ str ''|'' @ decimal (b_size f) @ str ''|'' @ opt_or (b_name f) []
      | TextCand plain html \<Rightarrow>
          str ''T:'' @ hash32 (take 256 plain) @ str '':'' @ hash32 (take 256 html) @ str '':''
            @ decimal (length plain) @ str '':'' @ decimal (length html))"

text \<open>\<open>parts.join(sep)\<close>.\<close>

fun join :: "jsstring \<Rightarrow> jsstring list \<Rightarrow> jsstring" where
  "join sep [] = []"
| "join sep [x] = x"
| "join sep (x # y # ys) = x @ sep @ join sep (y # ys)"

definition signature :: "candidate list \<Rightarrow> jsstring" where
  "signature cs = hash32 (join (str ''||'') (map sigPart cs))"

text \<open>
  How \<open>ingestCandidates\<close> ends: it drops the batch as a duplicate, it finishes with
  \<open>added\<close> candidates counted, or it never returns because an \<open>addBlob\<close> does not.
\<close>

datatype ingest_result = Duplicate | Finished nat | Stalled

fun ingest_loop :: "platform \<Rightarrow> candidate list \<Rightarrow> nat \<Rightarrow> world \<Rightarrow> world \<times> ingest_result" where
  "ingest_loop p [] added w = (w, Finished added)"
| "ingest_loop p (FileCand f # cs) added w =
     (case addBlob p f (opt_or (b_name f) []) KFile w of
        (w', True) \<Rightarrow> ingest_loop p cs (Suc added) w'
      | (w', False) \<Rightarrow> (w', Stalled))"
| "ingest_loop p (TextCand plain html # cs) added w =
     (if plain = [] \<and> html = [] then ingest_loop p cs added w
      else ingest_loop p cs (Suc added) (addText p plain html w))"

definition ingestCandidates :: "platform \<Rightarrow> candidate list \<Rightarrow> world \<Rightarrow> world \<times> ingest_result" where
  "ingestCandidates p candidates w =
     (let sig = signature candidates;
          now = time_of p (tick w);
          w1 = w\<lparr> tick := Suc (tick w) \<rparr>
      in if sig = fst (lastIngest w1) \<and> int now - int (snd (lastIngest w1)) < INGEST_DEDUP_WINDOW_MS
         then (w1, Duplicate)
         else ingest_loop p candidates 0 (w1\<lparr> lastIngest := (sig, now) \<rparr>))"

text \<open>
  An entry of \<open>clipboardData.items\<close>: of kind \<open>file\<close>, with what \<open>getAsFile()\<close> returns,
  or of kind \<open>string\<close>, with its type and the string that \<open>getAsString\<close> delivers.
\<close>

datatype dt_item = DTFile "blob option" | DTString jsstring jsstring

text \<open>The loop of \<open>ingestFromPasteEvent\<close>, on \<open>pendingText\<close> and the rest of the entries.\<close>

fun normalizeDataTransfer :: "jsstring \<times> jsstring \<Rightarrow> dt_item list \<Rightarrow> candidate list" where
  "normalizeDataTransfer (plain, html) [] =
     (if plain \<noteq> [] \<or> html \<noteq> [] then [TextCand plain html] else [])"
| "normalizeDataTransfer (plain, html) (DTFile file # rest) =
     (if plain \<noteq> [] \<or> html \<noteq> [] then [TextCand plain html] else [])
     @ (case file of Some f \<Rightarrow> [FileCand f] | None \<Rightarrow> [])
     @ normalizeDataTransfer (if plain \<noteq> [] \<or> html \<noteq> [] then ([], []) else (plain, html)) rest"
| "normalizeDataTransfer (plain, html) (DTString ty s # rest) =
     (if ty = str ''text/plain'' then normalizeDataTransfer (or_str s plain, html) rest
      else if ty = str ''text/html'' then normalizeDataTransfer (plain, or_str s html) rest
      else if ty = str ''text/uri-list'' then
        (let url = trim s
         in if url \<noteq> [] then normalizeDataTransfer (if plain \<noteq> [] then plain @ str ''\<newline>'' @ url else url, html) rest
            else normalizeDataTransfer (plain, html) rest)
      else normalizeDataTransfer (plain, html) rest)"

text \<open>\<open>ingestFromPasteEvent\<close>; \<open>None\<close> when it returns before anything is ingested.\<close>

definition ingestFromPasteEvent :: "platform \<Rightarrow> dt_item list \<Rightarrow> world \<Rightarrow> world \<times> ingest_result option" where
  "ingestFromPasteEvent p raw w =
     (if raw = [] then (w, None)
      else (case ingestCandidates p (normalizeDataTransfer ([], []) raw) w of (w', r) \<Rightarrow> (w', Some r)))"


text \<open>The two kinds of entries and of candidates, as predicates.\<close>

fun isString :: "dt_item \<Rightarrow> bool" where
  "isString (DTString ty s) = True"
| "isString (DTFile file) = False"

fun isTextCand :: "candidate \<Rightarrow> bool" where
  "isTextCand (TextCand plain html) = True"
| "isTextCand (FileCand f) = False"

text \<open>
  An item to which \<open>restoreBlobs\<close> has nothing to add: it has no blob id, or its
  \<open>mime\<close> and \<open>size\<close> are both truthy.
\<close>

definition complete_item :: "item \<Rightarrow> bool" where
  "complete_item it =
     (case i_blobId it of
        None \<Rightarrow> True
      | Some bid \<Rightarrow> bid = [] \<or> (opt_or (i_mime it) [] \<noteq> [] \<and> num_or (i_size it) 0 \<noteq> 0))"


section \<open>A reference environment\<close>

text \<open>
  A platform on which nothing fails: the clock stands at \<open>t\<close>, the \<open>n\<close>-th identifier
  is \<open>id\<close> followed by \<open>n\<close>, images do not decode, and a file reads as an empty
  base64 \<open>data:\<close> URL.
\<close>

definition quiet :: "nat \<Rightarrow> platform" where
  "quiet t =
     \<lparr> uid_of = (\<lambda>n. str ''id'' @ decimal n),
       time_of = (\<lambda>n. t),
       decode = (\<lambda>b. None),
       context2d = True,
       toBlob = (\<lambda>w h b. None),
       arrayBuffer_rejects = (\<lambda>b. False),
       reader = (\<lambda>b. Loaded (str '';base64,'')),
       send_rejects = (\<lambda>m. False),
       idb_fault = (\<lambda>m. None),
       type_error = Exception (str ''TypeError'') (str ''payload is undefined''),
       data_error = Exception (str ''DataError'') (str ''no key''),
       worker_now = t,
       storageSet_rejects = False \<rparr>"

text \<open>
  The same platform with a working image pipeline: every image decodes to the given
  natural size, and the canvas encodes to \<open>image/webp\<close> with one byte for each pixel
  of width and of height.
\<close>

definition studio :: "nat \<times> nat \<Rightarrow> platform" where
  "studio d =
     (quiet 0)\<lparr> decode := (\<lambda>b. Some d),
                toBlob := (\<lambda>w h b. Some \<lparr> b_type = str ''image/webp'', b_bytes = replicate (w + h) 0,
                                          b_name = None, b_lastModified = 0 \<rparr>) \<rparr>"

text \<open>A PNG file of 3000000 bytes.\<close>

definition big_png :: blob where
  "big_png = \<lparr> b_type = str ''image/png'', b_bytes = replicate 3000000 0,
               b_name = Some (str ''scan.png''), b_lastModified = 0 \<rparr>"

text \<open>
  Platforms on which the service worker cannot be reached: every send rejects. On
  the second one reading a file as a \<open>data:\<close> URL throws as well.
\<close>

definition offline :: "nat \<Rightarrow> platform" where
  "offline t = (quiet t)\<lparr> send_rejects := (\<lambda>m. True) \<rparr>"


text \<open>A small text file.\<close>

definition note_txt :: blob where
  "note_txt = \<lparr> b_type = str ''text/plain'', b_bytes = [104, 105],
                b_name = Some (str ''note.txt''), b_lastModified = 1 \<rparr>"

text \<open>A page just opened in a browser profile with empty stores.\<close>

definition blank :: world where
  "blank = \<lparr> items = [], blobCache = Map.empty, lastIngest = ([], 0), tick = 0,
             stored_v6 = None, stored_v5 = None, idb = Map.empty \<rparr>"

text \<open>
  The same page in a profile that still holds a version 5 record with one text
  entry and no version 6 record.
\<close>

definition upgraded :: world where
  "upgraded =
     blank\<lparr> stored_v5 := Some [LegacyItem \<lparr> l_kind = str ''text'', l_createdAt = Some 5,
                                              l_text = Some (str ''old''), l_html = None,
                                              l_dataUrlPersisted = None, l_dataUrl = None,
                                              l_name = None, l_mime = None, l_size = None \<rparr>] \<rparr>"

text \<open>The item that \<open>addBlob\<close> makes of \<open>note_txt\<close> on \<open>quiet 0\<close>, as it is persisted.\<close>

definition note_item :: item where
  "note_item = \<lparr> i_id = str ''id0'', i_kind = KFile, i_createdAt = 0, i_text = None, i_html = None,
                  i_blobId = Some (str ''id0''), i_name = Some (str ''note.txt''),
                  i_mime = Some (str ''text/plain''), i_size = Some 2, i_dataUrl = None,
                  i_pending = None, i_error = None, i_expanded = None \<rparr>"

text \<open>The paste of the example scenario.\<close>

definition hello_paste :: "dt_item list" where
  "hello_paste = [DTString (str ''text/plain'') (str ''hello''),
                  DTString (str ''text/html'') (str ''<b>hello</b>'')]"

definition hello_batch :: "candidate list" where
  "hello_batch = [TextCand (str ''hello'') (str ''<b>hello</b>'')]"

section \<open>What each operation leaves alone\<close>

lemma hash32_length: "length (hash32 s) = 8"
  by (simp add: hash32_def hex8_def)

lemma signature_nonempty: "signature cs \<noteq> []"
proof -
  have "length (signature cs) = 8" by (simp add: signature_def hash32_length)
  then show ?thesis by auto
qed

lemma persistMetadata_frame:
  "items (persistMetadata p w) = items w"
  "lastIngest (persistMetadata p w) = lastIngest w"
  "blobCache (persistMetadata p w) = blobCache w"
  "tick (persistMetadata p w) = tick w"
  "idb (persistMetadata p w) = idb w"
  "stored_v5 (persistMetadata p w) = stored_v5 w"
  by (simp_all add: persistMetadata_def)

lemma runtimeSend_frame:
  "items (snd (runtimeSend p m w)) = items w"
  "lastIngest (snd (runtimeSend p m w)) = lastIngest w"
  "blobCache (snd (runtimeSend p m w)) = blobCache w"
  "tick (snd (runtimeSend p m w)) = tick w"
  "stored_v6 (snd (runtimeSend p m w)) = stored_v6 w"
  "stored_v5 (snd (runtimeSend p m w)) = stored_v5 w"
  by (simp_all add: runtimeSend_def split: prod.splits)











section \<open>Suppression of a repeated batch\<close>





section \<open>Text candidates\<close>

lemma trimEnd_split:
  "\<exists>ws. s = trimEnd s @ ws \<and> (\<forall>c \<in> set ws. isWhiteSpace c)"
proof -
  have "rev s = takeWhile isWhiteSpace (rev s) @ dropWhile isWhiteSpace (rev s)"
    by simp
  then have "s = rev (dropWhile isWhiteSpace (rev s)) @ rev (takeWhile isWhiteSpace (rev s))"
    by (metis rev_append rev_rev_ident)
  moreover have "\<forall>c \<in> set (rev (takeWhile isWhiteSpace (rev s))). isWhiteSpace c"
    by (auto dest: set_takeWhileD)
  ultimately show ?thesis
    unfolding trimEnd_def by blast
qed

lemma trimEnd_last: "trimEnd s \<noteq> [] \<Longrightarrow> \<not> isWhiteSpace (last (trimEnd s))"
proof -
  assume ne: "trimEnd s \<noteq> []"
  then have "dropWhile isWhiteSpace (rev s) \<noteq> []" by (simp add: trimEnd_def)
  then have "\<not> isWhiteSpace (hd (dropWhile isWhiteSpace (rev s)))"
    by (rule hd_dropWhile)
  moreover have "last (trimEnd s) = hd (dropWhile isWhiteSpace (rev s))"
    using ne by (simp add: trimEnd_def last_rev)
  ultimately show ?thesis by simp
qed

lemma trimEnd_empty_iff: "trimEnd s = [] \<longleftrightarrow> (\<forall>c \<in> set s. isWhiteSpace c)"
  by (auto simp add: trimEnd_def)


lemma items_addText:
  "items (addText p txt html w) =
     (if trimEnd txt = [] \<and> trimEnd html = [] then items w
      else \<lparr> i_id = uid_of p (tick w), i_kind = KText, i_createdAt = time_of p (Suc (tick w)),
             i_text = Some (trimEnd txt), i_html = Some (trimEnd html), i_blobId = None,
             i_name = None, i_mime = None, i_size = None, i_dataUrl = None, i_pending = None,
             i_error = None, i_expanded = None \<rparr> # items w)"
  by (simp add: addText_def Let_def addItemLocal_def persistMetadata_frame)

lemma items_single_text:
  "items (fst (ingest_loop p [TextCand plain html] n w)) =
     (if trimEnd plain = [] \<and> trimEnd html = [] then items w
      else \<lparr> i_id = uid_of p (tick w), i_kind = KText, i_createdAt = time_of p (Suc (tick w)),
             i_text = Some (trimEnd plain), i_html = Some (trimEnd html), i_blobId = None,
             i_name = None, i_mime = None, i_size = None, i_dataUrl = None, i_pending = None,
             i_error = None, i_expanded = None \<rparr> # items w)"
  by (auto simp add: items_addText trimEnd_def)


text \<open>
  Claim C6, as amended. A text candidate whose plain or html content is non-empty
  once trailing whitespace is removed puts exactly one item of kind text at the
  head of the list; a text candidate whose plain and html contents are both empty
  once trailing whitespace is removed creates no item.
\<close>

theorem text_candidate_one_item:
  "(trimEnd plain \<noteq> [] \<or> trimEnd html \<noteq> [] \<longrightarrow>
      (\<exists>it. items (fst (ingest_loop p [TextCand plain html] n w)) = it # items w
            \<and> i_kind it = KText))
   \<and> (trimEnd plain = [] \<and> trimEnd html = [] \<longrightarrow>
      items (fst (ingest_loop p [TextCand plain html] n w)) = items w)"
  unfolding items_single_text by simp

theorem text_candidate_one_item_witness:
  "trimEnd (str ''hello'') \<noteq> []
   \<and> (\<exists>it. items (fst (ingest_loop (quiet 5) [TextCand (str ''hello'') (str ''<b>hello</b>'')] 0 blank))
              = it # items blank \<and> i_kind it = KText)
   \<and> (trimEnd [] = [] \<and> trimEnd [] = [])
   \<and> items (fst (ingest_loop (quiet 5) [TextCand [] []] 0 blank)) = items blank"
  using text_candidate_one_item[of "str ''hello''" "str ''<b>hello</b>''" "quiet 5" 0 blank]
        text_candidate_one_item[of "[]" "[]" "quiet 5" 0 blank]
  unfolding items_single_text
  by (simp add: trimEnd_def str_def isWhiteSpace_def)


text \<open>
  Claim C6 as stated fails: a candidate whose plain content is one space is not
  empty, is counted as added, and creates no item.
\<close>

theorem whitespace_text_candidate_no_item:
  "str '' '' \<noteq> []
   \<and> items (fst (ingest_loop (quiet 5) [TextCand (str '' '') []] 0 blank)) = []
   \<and> snd (ingest_loop (quiet 5) [TextCand (str '' '') []] 0 blank) = Finished 1"
  by (simp add: addText_def trimEnd_def str_def isWhiteSpace_def blank_def)


text \<open>
  Claim C10. When a text candidate creates an item, the item is the new head of the
  list and its text and html are the plain and html contents of the candidate cut
  before their trailing whitespace: each content is the stored string followed by
  whitespace only, and a non-empty stored string does not end in whitespace. A
  candidate whose plain and html contents are whitespace only creates no item.
\<close>

theorem committed_text_is_trimmed:
  "(items (fst (ingest_loop p [TextCand plain html] n w)) \<noteq> items w \<longrightarrow>
      (\<exists>it. items (fst (ingest_loop p [TextCand plain html] n w)) = it # items w
            \<and> i_text it = Some (trimEnd plain) \<and> i_html it = Some (trimEnd html)))
   \<and> (\<exists>ws. plain = trimEnd plain @ ws \<and> (\<forall>c \<in> set ws. isWhiteSpace c))
   \<and> (\<exists>ws. html = trimEnd html @ ws \<and> (\<forall>c \<in> set ws. isWhiteSpace c))
   \<and> (trimEnd plain \<noteq> [] \<longrightarrow> \<not> isWhiteSpace (last (trimEnd plain)))
   \<and> (trimEnd html \<noteq> [] \<longrightarrow> \<not> isWhiteSpace (last (trimEnd html)))
   \<and> ((\<forall>c \<in> set plain. isWhiteSpace c) \<and> (\<forall>c \<in> set html. isWhiteSpace c) \<longrightarrow>
        items (fst (ingest_loop p [TextCand plain html] n w)) = items w)"
proof (intro conjI)
  show "items (fst (ingest_loop p [TextCand plain html] n w)) \<noteq> items w \<longrightarrow>
      (\<exists>it. items (fst (ingest_loop p [TextCand plain html] n w)) = it # items w
            \<and> i_text it = Some (trimEnd plain) \<and> i_html it = Some (trimEnd html))"
    unfolding items_single_text by simp
  show "\<exists>ws. plain = trimEnd plain @ ws \<and> (\<forall>c \<in> set ws. isWhiteSpace c)"
    by (rule trimEnd_split)
  show "\<exists>ws. html = trimEnd html @ ws \<and> (\<forall>c \<in> set ws. isWhiteSpace c)"
    by (rule trimEnd_split)
  show "trimEnd plain \<noteq> [] \<longrightarrow> \<not> isWhiteSpace (last (trimEnd plain))"
    by (simp add: trimEnd_last)
  show "trimEnd html \<noteq> [] \<longrightarrow> \<not> isWhiteSpace (last (trimEnd html))"
    by (simp add: trimEnd_last)
  show "(\<forall>c \<in> set plain. isWhiteSpace c) \<and> (\<forall>c \<in> set html. isWhiteSpace c) \<longrightarrow>
        items (fst (ingest_loop p [TextCand plain html] n w)) = items w"
    unfolding items_single_text by (simp add: trimEnd_empty_iff)
qed

theorem committed_text_is_trimmed_witness:
  "items (fst (ingest_loop (quiet 5) [TextCand (str ''hi  '') (str ''<i>hi</i> '')] 0 blank)) \<noteq> items blank
   \<and> (\<exists>it. items (fst (ingest_loop (quiet 5) [TextCand (str ''hi  '') (str ''<i>hi</i> '')] 0 blank))
              = it # items blank
            \<and> i_text it = Some (str ''hi'') \<and> i_html it = Some (str ''<i>hi</i>''))
   \<and> trimEnd (str ''hi  '') \<noteq> [] \<and> \<not> isWhiteSpace (last (trimEnd (str ''hi  '')))
   \<and> trimEnd (str ''<i>hi</i> '') \<noteq> [] \<and> \<not> isWhiteSpace (last (trimEnd (str ''<i>hi</i> '')))
   \<and> list_all isWhiteSpace (str ''  '') \<and> list_all isWhiteSpace (str ''\<newline>'')
   \<and> items (fst (ingest_loop (quiet 5) [TextCand (str ''  '') (str ''\<newline>'')] 0 blank)) = items blank"
  using committed_text_is_trimmed[of "quiet 5" "str ''hi  ''" "str ''<i>hi</i> ''" 0 blank]
        committed_text_is_trimmed[of "quiet 5" "str ''  ''" "str ''\<newline>''" 0 blank]
  unfolding items_single_text
  by (simp add: trimEnd_def str_def isWhiteSpace_def)



section \<open>Normalisation of a paste event\<close>

lemma normalize_strings:
  "\<forall>e \<in> set es. isString e \<Longrightarrow>
     length (normalizeDataTransfer pd es) \<le> 1 \<and> (\<forall>c \<in> set (normalizeDataTransfer pd es). isTextCand c)"
proof (induction pd es rule: normalizeDataTransfer.induct)
  case (1 plain html)
  then show ?case by simp
next
  case (2 plain html fl rest)
  then show ?case by simp
next
  case (3 plain html ty s rest)
  then show ?case by (simp add: Let_def)
qed

lemma normalize_run_then_file:
  "\<forall>e \<in> set es. isString e \<Longrightarrow>
     normalizeDataTransfer pd (es @ DTFile file # rest) =
       normalizeDataTransfer pd es @ (case file of Some f \<Rightarrow> [FileCand f] | None \<Rightarrow> []) @ normalizeDataTransfer ([], []) rest"
proof (induction pd es rule: normalizeDataTransfer.induct)
  case (1 plain html)
  then show ?case by simp
next
  case (2 plain html fl rest)
  then show ?case by simp
next
  case (3 plain html ty s rest)
  then show ?case by (simp add: Let_def)
qed

lemma ingestCandidates_unrecorded:
  "fst (lastIngest w) \<noteq> signature cs \<Longrightarrow>
     ingestCandidates p cs w =
       ingest_loop p cs 0 (w\<lparr> tick := Suc (tick w), lastIngest := (signature cs, time_of p (tick w)) \<rparr>)"
  by (simp add: ingestCandidates_def Let_def)

lemma normalize_hello: "normalizeDataTransfer ([], []) hello_paste = hello_batch"
  by (simp add: hello_paste_def hello_batch_def or_str_def str_def)

lemma hello_example:
  assumes "fst (lastIngest w) \<noteq> signature hello_batch"
  shows "\<exists>it. items (fst (ingestFromPasteEvent p hello_paste w)) = it # items w
          \<and> i_kind it = KText \<and> i_text it = Some (str ''hello'')
          \<and> i_html it = Some (str ''<b>hello</b>'')"
proof -
  have "hello_paste \<noteq> []" by (simp add: hello_paste_def)
  then have "fst (ingestFromPasteEvent p hello_paste w) = fst (ingestCandidates p hello_batch w)"
    by (simp add: ingestFromPasteEvent_def normalize_hello split: prod.splits)
  also have "\<dots> = fst (ingest_loop p [TextCand (str ''hello'') (str ''<b>hello</b>'')] 0
       (w\<lparr> tick := Suc (tick w), lastIngest := (signature hello_batch, time_of p (tick w)) \<rparr>))"
    using assms by (simp add: ingestCandidates_unrecorded) (simp add: hello_batch_def)
  finally have run: "fst (ingestFromPasteEvent p hello_paste w) =
      fst (ingest_loop p [TextCand (str ''hello'') (str ''<b>hello</b>'')] 0
       (w\<lparr> tick := Suc (tick w), lastIngest := (signature hello_batch, time_of p (tick w)) \<rparr>))" .
  show ?thesis
    unfolding run items_single_text
    by (simp add: trimEnd_def str_def isWhiteSpace_def)
qed


text \<open>
  Claim C8. A run of string entries yields at most one candidate, a text candidate,
  and a run followed by a file entry yields what the run alone yields, then the
  file, then what the rest yields from an empty pending text: the pending text is
  flushed at a file entry and at the end of the input. A \<open>text/uri-list\<close> entry whose
  trimmed string is not empty becomes a further line of the pending plain text, or
  the plain text itself when there is none yet. The paste of \<open>hello\<close> with
  \<open><b>hello</b>\<close>, when it is no duplicate, puts one text item with exactly
  these two strings at the head of the list.
\<close>

theorem paste_normalization:
  "((\<forall>e \<in> set es. isString e) \<longrightarrow>
        length (normalizeDataTransfer pd es) \<le> 1 \<and> (\<forall>c \<in> set (normalizeDataTransfer pd es). isTextCand c)
        \<and> normalizeDataTransfer pd (es @ DTFile fl # rest) =
            normalizeDataTransfer pd es @ (case fl of Some f \<Rightarrow> [FileCand f] | None \<Rightarrow> [])
              @ normalizeDataTransfer ([], []) rest)
   \<and> (trim s \<noteq> [] \<longrightarrow>
        normalizeDataTransfer (plain, html) (DTString (str ''text/uri-list'') s # rest) =
          normalizeDataTransfer (if plain = [] then trim s else plain @ str ''\<newline>'' @ trim s, html) rest)
   \<and> normalizeDataTransfer (plain, html) (DTFile fl # rest) =
        (if plain \<noteq> [] \<or> html \<noteq> [] then [TextCand plain html] else [])
          @ (case fl of Some f \<Rightarrow> [FileCand f] | None \<Rightarrow> []) @ normalizeDataTransfer ([], []) rest
   \<and> normalizeDataTransfer (plain, html) [] = (if plain \<noteq> [] \<or> html \<noteq> [] then [TextCand plain html] else [])
   \<and> (fst (lastIngest w) \<noteq> signature (normalizeDataTransfer ([], []) hello_paste) \<longrightarrow>
        (\<exists>it. items (fst (ingestFromPasteEvent p hello_paste w)) = it # items w
              \<and> i_kind it = KText \<and> i_text it = Some (str ''hello'')
              \<and> i_html it = Some (str ''<b>hello</b>'')))"
proof (intro conjI impI)
  assume run: "\<forall>e \<in> set es. isString e"
  show "length (normalizeDataTransfer pd es) \<le> 1"
    using normalize_strings[OF run] by simp
  show "\<forall>c \<in> set (normalizeDataTransfer pd es). isTextCand c"
    using normalize_strings[OF run] by simp
  show "normalizeDataTransfer pd (es @ DTFile fl # rest) =
      normalizeDataTransfer pd es @ (case fl of Some f \<Rightarrow> [FileCand f] | None \<Rightarrow> []) @ normalizeDataTransfer ([], []) rest"
    using run by (rule normalize_run_then_file)
next
  assume "trim s \<noteq> []"
  then show "normalizeDataTransfer (plain, html) (DTString (str ''text/uri-list'') s # rest) =
      normalizeDataTransfer (if plain = [] then trim s else plain @ str ''\<newline>'' @ trim s, html) rest"
    by (simp add: Let_def str_def)
next
  show "normalizeDataTransfer (plain, html) (DTFile fl # rest) =
        (if plain \<noteq> [] \<or> html \<noteq> [] then [TextCand plain html] else [])
          @ (case fl of Some f \<Rightarrow> [FileCand f] | None \<Rightarrow> []) @ normalizeDataTransfer ([], []) rest"
    by simp
next
  show "normalizeDataTransfer (plain, html) [] = (if plain \<noteq> [] \<or> html \<noteq> [] then [TextCand plain html] else [])"
    by simp
next
  assume "fst (lastIngest w) \<noteq> signature (normalizeDataTransfer ([], []) hello_paste)"
  then have "fst (lastIngest w) \<noteq> signature hello_batch"
    by (simp add: normalize_hello)
  then show "\<exists>it. items (fst (ingestFromPasteEvent p hello_paste w)) = it # items w
              \<and> i_kind it = KText \<and> i_text it = Some (str ''hello'')
              \<and> i_html it = Some (str ''<b>hello</b>'')"
    by (rule hello_example)
qed


theorem paste_normalization_witness:
  "list_all isString hello_paste
   \<and> normalizeDataTransfer ([], []) hello_paste = [TextCand (str ''hello'') (str ''<b>hello</b>'')]
   \<and> normalizeDataTransfer ([], []) (hello_paste @ DTFile None # hello_paste) =
        [TextCand (str ''hello'') (str ''<b>hello</b>''), TextCand (str ''hello'') (str ''<b>hello</b>'')]
   \<and> trim (str '' http://a '') \<noteq> []
   \<and> normalizeDataTransfer (str ''see'', []) [DTString (str ''text/uri-list'') (str '' http://a '')] =
        [TextCand (str ''see\<newline>http://a'') []]
   \<and> fst (lastIngest blank) \<noteq> signature (normalizeDataTransfer ([], []) hello_paste)
   \<and> (\<exists>it. items (fst (ingestFromPasteEvent (quiet 7) hello_paste blank)) = it # items blank
          \<and> i_kind it = KText \<and> i_text it = Some (str ''hello'')
          \<and> i_html it = Some (str ''<b>hello</b>''))"
  using paste_normalization[where es = hello_paste and pd = "([], [])" and fl = None
          and rest = hello_paste and s = "str '' http://a ''" and plain = "str ''see''"
          and html = "[]" and w = blank and p = "quiet 7"]
        signature_nonempty[of "normalizeDataTransfer ([], []) hello_paste"]
  by (simp add: normalize_hello hello_batch_def)
    (simp add: hello_paste_def blank_def trim_def trimEnd_def trimStart_def str_def isWhiteSpace_def
      or_str_def)



section \<open>The answers of the blob store\<close>













section \<open>The image transcoder: sizes\<close>

lemma js_round_le: "x \<le> of_nat n \<Longrightarrow> js_round x \<le> n"
proof -
  assume "x \<le> of_nat n"
  then have "x + 1 / 2 < of_int (int n + 1)" by simp
  then have "\<lfloor>x + 1 / 2\<rfloor> < int n + 1"
    using floor_less_iff[of "x + 1 / 2" "int n + 1"] by blast
  then show ?thesis by (simp add: js_round_def)
qed

lemma canvasSize_bound:
  assumes cs: "canvasSize (wd, ht) = Some (w, h)" and m: "max wd ht \<le> 13653"
  shows "w \<le> 2048 \<and> h \<le> 2048"
proof -
  define m :: nat where "m = max wd ht"
  have pos: "m \<noteq> 0"
    using cs by (auto simp add: canvasSize_def Let_def m_def split: if_splits)
  then have mpos: "(0::rat) < of_nat m" by simp
  define scale :: rat where "scale = clamp (2048 / of_nat m) (15 / 100) 1"
  have "(15::rat) / 100 * of_nat m \<le> 2048"
  proof -
    have "(of_nat m :: rat) \<le> 13653" using m by (simp add: m_def)
    then show ?thesis by simp
  qed
  then have lo: "(15::rat) / 100 \<le> 2048 / of_nat m"
    using mpos by (simp add: pos_le_divide_eq)
  have scale_le: "scale \<le> 2048 / of_nat m"
    using lo by (simp add: scale_def clamp_def)
  have scale_nonneg: "0 \<le> scale"
    using lo by (simp add: scale_def clamp_def)
  have side: "js_round (of_nat d * scale) \<le> 2048" if "d \<le> m" for d
  proof -
    have "of_nat d * scale \<le> of_nat m * scale"
      using that scale_nonneg by (simp add: mult_right_mono)
    also have "\<dots> \<le> of_nat m * (2048 / of_nat m)"
      by (rule mult_left_mono[OF scale_le]) simp
    also have "\<dots> = 2048" using pos by simp
    finally have "of_nat d * scale \<le> of_nat (2048::nat)" by simp
    then show ?thesis by (rule js_round_le)
  qed
  have "w = max 1 (js_round (of_nat wd * scale))" "h = max 1 (js_round (of_nat ht * scale))"
    using cs pos by (auto simp add: canvasSize_def Let_def m_def scale_def IMAGE_MAX_DIM_def split: if_splits)
  moreover have "wd \<le> m" "ht \<le> m" by (simp_all add: m_def)
  ultimately show ?thesis using side by auto
qed

lemma canvasSize_Some:
  assumes "2050 < max wd ht"
  shows "\<exists>w h. canvasSize (wd, ht) = Some (w, h)"
proof -
  have big: "(2050::rat) < of_nat (max wd ht)" using assms by linarith
  then have mpos: "(0::rat) < of_nat (max wd ht)" by linarith
  have "(2048::rat) < 999 / 1000 * of_nat (max wd ht)" using big by simp
  then have q: "(2048::rat) / of_nat (max wd ht) < 999 / 1000"
    using mpos by (simp only: pos_divide_less_eq)
  have c: "clamp (2048 / of_nat (max wd ht)) (15 / 100) 1 < 999 / 1000"
    using q unfolding clamp_def by (simp only: min_less_iff_disj max_less_iff_conj) simp
  have nz: "max wd ht \<noteq> 0" using assms by linarith
  show ?thesis
    unfolding canvasSize_def Let_def IMAGE_MAX_DIM_def fst_conv snd_conv
    using c nz by (simp only: if_False of_nat_numeral not_le[symmetric]) simp
qed

lemma maybeCompressImage_changed:
  assumes "maybeCompressImage p b \<noteq> b"
  shows "\<exists>wd ht w h. decode p b = Some (wd, ht) \<and> canvasSize (wd, ht) = Some (w, h)
           \<and> toBlob p w h b = Some (maybeCompressImage p b)
           \<and> b_size (maybeCompressImage p b) < b_size b"
  using assms
  by (auto simp add: maybeCompressImage_def split: if_splits option.splits prod.splits)


lemma canvasSize_4000: "canvasSize (4000, 3000) = Some (2048, 1536)"
proof -
  have "\<lfloor>(4097::rat) / 2\<rfloor> = 2048" "\<lfloor>(3073::rat) / 2\<rfloor> = 1536"
    by (simp_all add: floor_eq_iff)
  then show ?thesis
    by (simp add: canvasSize_def Let_def clamp_def js_round_def IMAGE_MAX_DIM_def)
qed

lemma canvasSize_20000: "canvasSize (20000, 100) = Some (3000, 15)"
proof -
  have "\<lfloor>(6001::rat) / 2\<rfloor> = 3000" "\<lfloor>(31::rat) / 2\<rfloor> = 15"
    by (simp_all add: floor_eq_iff)
  then show ?thesis
    by (simp add: canvasSize_def Let_def clamp_def js_round_def IMAGE_MAX_DIM_def)
qed


text \<open>
  Claim C7, as amended. The transcoder returns its input unchanged when it is not
  image-like or has at most \<open>IMAGE_SOFT_LIMIT\<close> bytes. Whenever it returns anything
  else, the input decoded, the result is the encoding of the canvas and has fewer
  bytes, and both sides of the canvas are at most \<open>IMAGE_MAX_DIM\<close> provided the longer
  side of the input is at most 13653 pixels, the size from which the scale is held
  at 0.15. An image over the soft limit that decodes with a longer side over 2050
  pixels is replaced by the encoding of the canvas when a 2d context exists and the
  encoding is non-empty and smaller.
\<close>

theorem transcoder_bounds:
  "(\<not> startsWith (b_type b) (str ''image/'') \<or> b_size b \<le> IMAGE_SOFT_LIMIT \<longrightarrow>
       maybeCompressImage p b = b)
   \<and> (maybeCompressImage p b \<noteq> b \<longrightarrow>
       (\<exists>wd ht w h. decode p b = Some (wd, ht) \<and> canvasSize (wd, ht) = Some (w, h)
          \<and> toBlob p w h b = Some (maybeCompressImage p b)
          \<and> b_size (maybeCompressImage p b) < b_size b
          \<and> (max wd ht \<le> 13653 \<longrightarrow> w \<le> IMAGE_MAX_DIM \<and> h \<le> IMAGE_MAX_DIM)))
   \<and> (startsWith (b_type b) (str ''image/'') \<and> IMAGE_SOFT_LIMIT < b_size b
        \<and> decode p b = Some (dw, dh) \<and> 2050 < max dw dh \<and> context2d p \<longrightarrow>
       (\<exists>w h. canvasSize (dw, dh) = Some (w, h)
          \<and> (\<forall>out. toBlob p w h b = Some out \<and> b_size out \<noteq> 0 \<and> b_size out < b_size b \<longrightarrow>
                maybeCompressImage p b = out)))"
proof (intro conjI impI)
  assume "\<not> startsWith (b_type b) (str ''image/'') \<or> b_size b \<le> IMAGE_SOFT_LIMIT"
  then show "maybeCompressImage p b = b"
    by (auto simp add: maybeCompressImage_def)
next
  assume "maybeCompressImage p b \<noteq> b"
  then obtain wd ht w h where
    re: "decode p b = Some (wd, ht)" "canvasSize (wd, ht) = Some (w, h)"
        "toBlob p w h b = Some (maybeCompressImage p b)"
        "b_size (maybeCompressImage p b) < b_size b"
    using maybeCompressImage_changed by blast
  have "max wd ht \<le> 13653 \<longrightarrow> w \<le> IMAGE_MAX_DIM \<and> h \<le> IMAGE_MAX_DIM"
    using canvasSize_bound[OF re(2)] by (simp add: IMAGE_MAX_DIM_def)
  with re show "\<exists>wd ht w h. decode p b = Some (wd, ht) \<and> canvasSize (wd, ht) = Some (w, h)
          \<and> toBlob p w h b = Some (maybeCompressImage p b)
          \<and> b_size (maybeCompressImage p b) < b_size b
          \<and> (max wd ht \<le> 13653 \<longrightarrow> w \<le> IMAGE_MAX_DIM \<and> h \<le> IMAGE_MAX_DIM)"
    by blast
next
  assume a: "startsWith (b_type b) (str ''image/'') \<and> IMAGE_SOFT_LIMIT < b_size b
        \<and> decode p b = Some (dw, dh) \<and> 2050 < max dw dh \<and> context2d p"
  then obtain w h where cs: "canvasSize (dw, dh) = Some (w, h)"
    using canvasSize_Some[of dw dh] by blast
  have "\<forall>out. toBlob p w h b = Some out \<and> b_size out \<noteq> 0 \<and> b_size out < b_size b \<longrightarrow>
                maybeCompressImage p b = out"
    using a cs by (auto simp add: maybeCompressImage_def)
  with cs show "\<exists>w h. canvasSize (dw, dh) = Some (w, h)
          \<and> (\<forall>out. toBlob p w h b = Some out \<and> b_size out \<noteq> 0 \<and> b_size out < b_size b \<longrightarrow>
                maybeCompressImage p b = out)"
    by blast
qed

theorem transcoder_bounds_witness:
  "b_size note_txt \<le> IMAGE_SOFT_LIMIT
   \<and> maybeCompressImage (quiet 0) note_txt = note_txt
   \<and> startsWith (b_type big_png) (str ''image/'') \<and> IMAGE_SOFT_LIMIT < b_size big_png
   \<and> decode (studio (4000, 3000)) big_png = Some (4000, 3000) \<and> 2050 < max 4000 (3000::nat)
   \<and> context2d (studio (4000, 3000))
   \<and> maybeCompressImage (studio (4000, 3000)) big_png \<noteq> big_png
   \<and> max 4000 3000 \<le> (13653::nat)
   \<and> canvasSize (4000, 3000) = Some (2048, 1536)
   \<and> toBlob (studio (4000, 3000)) 2048 1536 big_png = Some (maybeCompressImage (studio (4000, 3000)) big_png)
   \<and> 2048 \<le> IMAGE_MAX_DIM \<and> 1536 \<le> IMAGE_MAX_DIM"
  using transcoder_bounds[where p = "studio (4000, 3000)" and b = big_png and dw = 4000 and dh = 3000]
        transcoder_bounds[where p = "quiet 0" and b = note_txt]
  by (simp add: maybeCompressImage_def canvasSize_4000 studio_def quiet_def big_png_def note_txt_def
      startsWith_def str_def b_size_def IMAGE_SOFT_LIMIT_def IMAGE_MAX_DIM_def)


text \<open>
  Claim C7 as stated fails: an image over the soft limit of 20000 by 100 pixels is
  scaled by 0.15 and comes back 3000 pixels wide.
\<close>

theorem huge_image_stays_wide:
  "startsWith (b_type big_png) (str ''image/'')
   \<and> IMAGE_SOFT_LIMIT < b_size big_png
   \<and> decode (studio (20000, 100)) big_png = Some (20000, 100)
   \<and> IMAGE_MAX_DIM < max 20000 100
   \<and> canvasSize (20000, 100) = Some (3000, 15)
   \<and> toBlob (studio (20000, 100)) 3000 15 big_png = Some (maybeCompressImage (studio (20000, 100)) big_png)
   \<and> maybeCompressImage (studio (20000, 100)) big_png \<noteq> big_png
   \<and> IMAGE_MAX_DIM < 3000"
  by (simp add: maybeCompressImage_def canvasSize_20000 studio_def quiet_def big_png_def
      startsWith_def str_def b_size_def IMAGE_SOFT_LIMIT_def IMAGE_MAX_DIM_def)



section \<open>File candidates\<close>













text \<open>
  When the write fails and the reader fires \<open>error\<close>, \<open>addBlob\<close> does not return, and
  neither does the ingest of the batch.
\<close>

lemma addBlob_settle_stalls:
  "fst (persistBlobToBackground p ident fl w) = False \<Longrightarrow> reader p fl = ReaderErrorEvent \<Longrightarrow>
     snd (addBlob_settle p ident fl w) = False"
  by (cases "persistBlobToBackground p ident fl w")
     (simp add: addBlob_settle_def Let_def blobToDataUrl_def)






section \<open>Clearing, deleting and reloading\<close>

text \<open>
  What reloading gives back. \<open>restoreBlobs\<close> keeps the ids and leaves complete items
  as they are, so a non-empty list of complete items that has been persisted is
  loaded again as it was, without its transient fields.
\<close>

lemma restoreBlob_id: "i_id (fst (restoreBlob p it w)) = i_id it"
  by (simp add: restoreBlob_def split: option.splits prod.splits response.splits)

lemma restoreBlobs_ids: "map i_id (fst (restoreBlobs p its w)) = map i_id its"
proof (induction its arbitrary: w)
  case Nil
  then show ?case by simp
next
  case (Cons it its)
  obtain it' w' where r: "restoreBlob p it w = (it', w')" by (cases "restoreBlob p it w")
  then have "i_id it' = i_id it" using restoreBlob_id[of p it w] by simp
  with r Cons[of w'] show ?case by (auto split: prod.splits)
qed

lemma restoreBlob_complete: "complete_item it \<Longrightarrow> fst (restoreBlob p it w) = it"
  by (auto simp add: restoreBlob_def complete_item_def opt_or_def num_or_def or_str_def
      split: option.splits prod.splits response.splits if_splits)

lemma restoreBlobs_complete:
  "\<forall>it \<in> set its. complete_item it \<Longrightarrow> fst (restoreBlobs p its w) = its"
proof (induction its arbitrary: w)
  case Nil
  then show ?case by simp
next
  case (Cons it its)
  obtain it' w' where r: "restoreBlob p it w = (it', w')" by (cases "restoreBlob p it w")
  then have "it' = it" using restoreBlob_complete[of it p w] Cons.prems by simp
  with r Cons.IH[of w'] Cons.prems show ?case by (auto split: prod.splits)
qed

lemma complete_item_strip: "complete_item (strip it) = complete_item it"
  by (simp add: complete_item_def strip_def split: option.splits)

lemma items_load_nonempty:
  "stored_v6 w = Some its \<Longrightarrow> its \<noteq> [] \<Longrightarrow> items (load q w) = fst (restoreBlobs q its (w\<lparr> items := its \<rparr>))"
  by (simp add: load_def Let_def split: option.splits list.splits prod.splits)

lemma items_load_no_legacy:
  "stored_v5 w = None \<or> stored_v5 w = Some [] \<Longrightarrow>
     items (load q w) =
       fst (restoreBlobs q (case stored_v6 w of Some its \<Rightarrow> its | None \<Rightarrow> [])
              (w\<lparr> items := (case stored_v6 w of Some its \<Rightarrow> its | None \<Rightarrow> []) \<rparr>))"
  by (auto simp add: load_def Let_def split: option.splits list.splits prod.splits)

lemma roundtrip_nonempty:
  assumes "items w \<noteq> []" and "\<not> storageSet_rejects p" and "\<forall>it \<in> set (items w). complete_item it"
  shows "items (load q (new_page (persistMetadata p w))) = map strip (items w)"
proof -
  have st: "stored_v6 (new_page (persistMetadata p w)) = Some (map strip (items w))"
    using assms(2) by (simp add: new_page_def persistMetadata_def)
  have "\<forall>it \<in> set (map strip (items w)). complete_item it"
    using assms(3) by (simp add: complete_item_strip)
  then show ?thesis
    using items_load_nonempty[OF st] assms(1) by (simp add: restoreBlobs_complete)
qed

text \<open>
  What clearing does. The list and the cache are emptied whatever happens; the blob
  store is emptied when the message arrives and IndexedDB works; and with the empty
  list persisted, the next load gives the empty list when no version 5 entries are
  stored.
\<close>

lemma clearAll_empties: "items (clearAll p w) = [] \<and> blobCache (clearAll p w) = Map.empty"
  by (simp add: clearAll_def Let_def runtimeSend_frame persistMetadata_frame)

lemma clearAll_clears_store:
  "\<not> send_rejects p (Message (Some (str ''blob.clear'')) (Some empty_payload)) \<Longrightarrow>
   idb_fault p (Message (Some (str ''blob.clear'')) (Some empty_payload)) = None \<Longrightarrow>
     idb (clearAll p w) = Map.empty"
  by (simp add: clearAll_def Let_def runtimeSend_def onMessage_def dispatch_def worker_clearAll_def
      str_def)

lemma load_after_clearAll:
  assumes "\<not> storageSet_rejects p" and "stored_v5 w = None \<or> stored_v5 w = Some []"
  shows "items (load q (new_page (clearAll p w))) = []"
proof -
  have "stored_v6 (new_page (clearAll p w)) = Some []"
    using assms(1) by (simp add: new_page_def clearAll_def Let_def runtimeSend_frame persistMetadata_def)
  moreover have "stored_v5 (new_page (clearAll p w)) = stored_v5 w"
    by (simp add: new_page_def clearAll_def Let_def runtimeSend_frame persistMetadata_frame)
  ultimately show ?thesis
    using assms(2) items_load_no_legacy[of "new_page (clearAll p w)" q] by auto
qed

text \<open>
  What deleting does. The item leaves the list; its blob record is deleted when the
  blob is in the session cache; and with the shortened list persisted, the next
  load shows no item with the id, as long as it does not start a migration.
\<close>

lemma splice_first_removes:
  "distinct (map i_id its) \<Longrightarrow> k \<notin> i_id ` set (splice_first k its)"
  by (induction its) auto

lemma splice_first_absent: "k \<notin> i_id ` set its \<Longrightarrow> splice_first k its = its"
  by (induction its) auto

lemma items_removeItem:
  "items (removeItem p k w) = splice_first k (items w)"
proof (cases "find (\<lambda>x. i_id x = k) (items w)")
  case None
  then have "k \<notin> i_id ` set (items w)" by (auto simp add: find_None_iff)
  then have "splice_first k (items w) = items w" by (rule splice_first_absent)
  with None show ?thesis by (simp add: removeItem_def)
next
  case (Some it)
  then show ?thesis
    by (simp add: removeItem_def Let_def persistMetadata_frame runtimeSend_frame split: option.splits)
qed

lemma removeItem_removes:
  "distinct (map i_id (items w)) \<Longrightarrow> k \<notin> i_id ` set (items (removeItem p k w))"
  by (simp only: items_removeItem splice_first_removes not_False_eq_True)

lemma removeItem_deletes_cached_blob:
  assumes "find (\<lambda>x. i_id x = k) (items w) = Some it" and "i_blobId it = Some bid" and "bid \<noteq> []"
    and "blobCache w bid \<noteq> None"
    and "\<not> send_rejects p (Message (Some (str ''blob.delete'')) (Some (id_payload bid)))"
    and "idb_fault p (Message (Some (str ''blob.delete'')) (Some (id_payload bid))) = None"
  shows "idb (removeItem p k w) bid = None \<and> blobCache (removeItem p k w) bid = None"
  using assms
  by (simp add: removeItem_def Let_def persistMetadata_frame runtimeSend_def onMessage_def
      dispatch_def deleteBlob_def id_payload_def empty_payload_def str_def)

lemma map_i_id_strip: "map i_id (map strip its) = map i_id its"
  by (induction its) (simp_all add: strip_def)

lemma removeItem_not_reloaded:
  assumes "k \<in> i_id ` set (items w)" and "distinct (map i_id (items w))"
    and "\<not> storageSet_rejects p"
    and "splice_first k (items w) \<noteq> [] \<or> stored_v5 w = None \<or> stored_v5 w = Some []"
  shows "k \<notin> i_id ` set (items (load q (new_page (removeItem p k w))))"
proof -
  let ?w = "new_page (removeItem p k w)"
  let ?its = "map strip (splice_first k (items w))"
  obtain it where f: "find (\<lambda>x. i_id x = k) (items w) = Some it"
    using assms(1) by (cases "find (\<lambda>x. i_id x = k) (items w)") (auto simp add: find_None_iff)
  have st: "stored_v6 ?w = Some ?its"
    using f assms(3)
    by (simp add: new_page_def removeItem_def Let_def persistMetadata_def runtimeSend_frame
        split: option.splits)
  have v5: "stored_v5 ?w = stored_v5 w"
    using f
    by (simp add: new_page_def removeItem_def Let_def persistMetadata_frame runtimeSend_frame
        split: option.splits)
  have gone: "k \<notin> set (map i_id ?its)"
    using splice_first_removes[OF assms(2), of k] by (simp only: map_i_id_strip) auto
  show ?thesis
  proof (cases "?its = []")
    case True
    then have "stored_v5 w = None \<or> stored_v5 w = Some []" using assms(4) by simp
    then have "items (load q ?w) = []"
      using items_load_no_legacy[of ?w q] st True v5 by simp
    then show ?thesis by simp
  next
    case False
    have "map i_id (items (load q ?w)) = map i_id ?its"
      using items_load_nonempty[OF st False, of q] by (simp only: restoreBlobs_ids)
    with gone show ?thesis by (metis image_set)
  qed
qed

lemma load_upgraded:
  "load (quiet t) upgraded =
     upgraded\<lparr> items := [\<lparr> i_id = str ''id0'', i_kind = KText, i_createdAt = 5,
                   i_text = Some (str ''old''), i_html = Some [], i_blobId = None, i_name = None,
                   i_mime = None, i_size = None, i_dataUrl = None, i_pending = None,
                   i_error = None, i_expanded = None \<rparr>],
                tick := 1,
                stored_v6 := Some [\<lparr> i_id = str ''id0'', i_kind = KText, i_createdAt = 5,
                   i_text = Some (str ''old''), i_html = Some [], i_blobId = None, i_name = None,
                   i_mime = None, i_size = None, i_dataUrl = None, i_pending = None,
                   i_error = None, i_expanded = None \<rparr>] \<rparr>"
  by (simp add: load_def upgraded_def blank_def Let_def now_unless_def persistMetadata_def
      restoreBlob_def strip_def quiet_def opt_or_def or_str_def decimal.simps digit_def str_def)


text \<open>
  Claim C3, on a profile that still holds a version 5 record. The first page
  migrates the record; clearing then leaves the list, the version 6 record and the
  blob store empty; and the next page, finding the version 6 record empty and the
  version 5 record still present, migrates again and shows the old entry.
\<close>

theorem clear_then_load_restores_legacy:
  "items (clearAll (quiet 1) (load (quiet 0) upgraded)) = []
   \<and> stored_v6 (clearAll (quiet 1) (load (quiet 0) upgraded)) = Some []
   \<and> idb (clearAll (quiet 1) (load (quiet 0) upgraded)) = Map.empty
   \<and> (\<exists>it. items (load (quiet 2) (new_page (clearAll (quiet 1) (load (quiet 0) upgraded)))) = [it]
          \<and> i_kind it = KText \<and> i_text it = Some (str ''old''))"
  unfolding load_upgraded
  by (simp add: clearAll_def load_def new_page_def upgraded_def blank_def Let_def now_unless_def
      persistMetadata_def runtimeSend_def onMessage_def dispatch_def worker_clearAll_def
      restoreBlob_def strip_def quiet_def opt_or_def or_str_def str_def)


text \<open>
  Claim C5, on the same profile. After the only item has been deleted the list is
  empty; persisting it and loading on the next page does not give the empty list
  back but the migrated version 5 entry.
\<close>

theorem emptied_list_reloads_legacy:
  "items (removeItem (quiet 1) (str ''id0'') (load (quiet 0) upgraded)) = []
   \<and> (\<exists>it. items (load (quiet 2)
                (new_page (persistMetadata (quiet 2)
                   (removeItem (quiet 1) (str ''id0'') (load (quiet 0) upgraded))))) = [it]
          \<and> i_kind it = KText \<and> i_text it = Some (str ''old''))"
  unfolding load_upgraded
  by (simp add: removeItem_def load_def new_page_def upgraded_def blank_def Let_def now_unless_def
      persistMetadata_def restoreBlob_def strip_def quiet_def opt_or_def or_str_def str_def)


lemma addBlob_note:
  "stored_v6 (fst (addBlob (quiet 0) note_txt [] KFile blank)) = Some [note_item]
   \<and> stored_v5 (fst (addBlob (quiet 0) note_txt [] KFile blank)) = None
   \<and> (\<exists>r. idb (fst (addBlob (quiet 0) note_txt [] KFile blank)) (str ''id0'') = Some r)"
  by (simp add: addBlob_def addBlob_insert_def addBlob_settle_def Let_def addItemLocal_def
      persistMetadata_def persistBlobToBackground_def runtimeSend_def onMessage_def dispatch_def
      putBlob_def put_request_def resp_ok_def modify_item_def strip_def note_item_def
      quiet_def blank_def note_txt_def
      startsWith_def isFile_def b_size_def or_str_def opt_or_def decimal.simps digit_def str_def)

lemma load_offline:
  "stored_v6 w = Some [note_item] \<Longrightarrow> stored_v5 w = None \<Longrightarrow>
     items (load (offline t) (new_page w)) = [note_item]
     \<and> blobCache (load (offline t) (new_page w)) = Map.empty
     \<and> idb (load (offline t) (new_page w)) = idb w"
  by (simp add: load_def new_page_def Let_def restoreBlob_def runtimeSend_def offline_def quiet_def
      note_item_def str_def)

lemma removeItem_uncached:
  "items w = [note_item] \<Longrightarrow> blobCache w = Map.empty \<Longrightarrow>
     items (removeItem p (str ''id0'') w) = [] \<and> idb (removeItem p (str ''id0'') w) = idb w"
  by (simp add: removeItem_def Let_def persistMetadata_frame note_item_def str_def)


text \<open>
  Claim C4, for an item whose blob could not be fetched when the page loaded. A
  file is added and persisted; the next page loads while the service worker cannot
  be reached, so the item is listed without a cached blob; deleting the item, with
  the worker reachable again, empties the list and leaves the blob record in the
  store.
\<close>

theorem removed_item_leaves_blob_record:
  "(\<exists>it. items (load (offline 1) (new_page (fst (addBlob (quiet 0) note_txt [] KFile blank)))) = [it]
        \<and> i_id it = str ''id0'' \<and> i_blobId it = Some (str ''id0''))
   \<and> items (removeItem (quiet 2) (str ''id0'')
        (load (offline 1) (new_page (fst (addBlob (quiet 0) note_txt [] KFile blank))))) = []
   \<and> (\<exists>r. idb (removeItem (quiet 2) (str ''id0'')
        (load (offline 1) (new_page (fst (addBlob (quiet 0) note_txt [] KFile blank))))) (str ''id0'')
          = Some r)"
proof -
  let ?w1 = "fst (addBlob (quiet 0) note_txt [] KFile blank)"
  let ?w2 = "load (offline 1) (new_page ?w1)"
  have a: "stored_v6 ?w1 = Some [note_item]" "stored_v5 ?w1 = None"
    and b: "\<exists>r. idb ?w1 (str ''id0'') = Some r"
    using addBlob_note by blast+
  have l: "items ?w2 = [note_item]" "blobCache ?w2 = Map.empty" "idb ?w2 = idb ?w1"
    using load_offline[OF a] by blast+
  have r: "items (removeItem (quiet 2) (str ''id0'') ?w2) = []"
      "idb (removeItem (quiet 2) (str ''id0'') ?w2) = idb ?w2"
    using removeItem_uncached[OF l(1,2)] by blast+
  show ?thesis
    using l r b by (simp add: note_item_def)
qed


end
